theory Spec2Isabelle
  imports Main "HOL-Library.Word"
begin

unbundle bit_operations_syntax

section \<open>Python values\<close>

text \<open>
  The handler of \<^verbatim>\<open>CrearPelicula.py\<close> receives a JSON-decoded event. A Python value
  is \<open>None\<close>, a \<open>bool\<close>, an \<open>int\<close>, a \<open>float\<close> (its 64 bits; the handler never
  computes with it), a \<open>str\<close>, a \<open>list\<close> or a \<open>dict\<close> with \<open>str\<close> keys. A dict is
  an association list in insertion order; a lookup reads the first binding of a key.
  Characters are the code points below 256.
\<close>

datatype pyval =
    PNone
  | PBool bool
  | PInt int
  | PFloat "64 word"
  | PStr string
  | PList "pyval list"
  | PDict "(string \<times> pyval) list"

fun type_name :: "pyval \<Rightarrow> string" where
  "type_name PNone = ''NoneType''"
| "type_name (PBool _) = ''bool''"
| "type_name (PInt _) = ''int''"
| "type_name (PFloat _) = ''float''"
| "type_name (PStr _) = ''str''"
| "type_name (PList _) = ''list''"
| "type_name (PDict _) = ''dict''"

section \<open>Exceptions\<close>

text \<open>
  The handler looks at three things of an exception \<open>e\<close>: whether it is an instance of
  the classes named in \<^verbatim>\<open>except (ClientError, ValueError, KeyError, RuntimeError)\<close>,
  \<^verbatim>\<open>e.__class__.__name__\<close> and \<^verbatim>\<open>str(e)\<close>. \<open>e_base\<close> is \<open>ValueErrorB\<close>,
  \<open>KeyErrorB\<close> or \<open>RuntimeErrorB\<close> when \<open>e\<close> is an instance of that class (so
  \<^verbatim>\<open>json.JSONDecodeError\<close> has base \<open>ValueErrorB\<close>), otherwise \<open>ClientErrorB\<close> when it is
  an instance of botocore's \<^verbatim>\<open>ClientError\<close>, otherwise \<open>ExceptionB\<close>.
\<close>

datatype exc_base = ClientErrorB | ValueErrorB | KeyErrorB | RuntimeErrorB | ExceptionB

datatype pyexc = PyExc (e_class_name: string) (e_base: exc_base) (e_str: string)

definition hexdigits :: string where
  "hexdigits = ''0123456789abcdef''"

text \<open>\<^verbatim>\<open>repr\<close> of a \<open>str\<close>: double quotes when the text has a single quote and no
  double quote, single quotes otherwise; backslash, the quote, newline, return and tab
  are escaped, other non-printable characters are written \<^verbatim>\<open>\xNN\<close>.\<close>

definition py_printable :: "char \<Rightarrow> bool" where
  "py_printable c =
     (let n = (of_char c :: nat) in 32 \<le> n \<and> n < 127 \<or> 161 \<le> n \<and> n \<noteq> 173)"

definition repr_char :: "char \<Rightarrow> char \<Rightarrow> string" where
  "repr_char q c =
     (if c = q \<or> c = CHR 0x5C then [CHR 0x5C, c]
      else if c = CHR 0x0A then [CHR 0x5C, CHR ''n'']
      else if c = CHR 0x0D then [CHR 0x5C, CHR ''r'']
      else if c = CHR 0x09 then [CHR 0x5C, CHR ''t'']
      else if py_printable c then [c]
      else [CHR 0x5C, CHR ''x'', hexdigits ! (of_char c div 16), hexdigits ! (of_char c mod 16)])"

definition py_repr :: "string \<Rightarrow> string" where
  "py_repr s =
     (let q = (if CHR 0x27 \<in> set s \<and> CHR 0x22 \<notin> set s then CHR 0x22 else CHR 0x27)
      in [q] @ concat (map (repr_char q) s) @ [q])"

text \<open>The exceptions the source raises itself. \<^verbatim>\<open>str\<close> of a \<^verbatim>\<open>KeyError\<close> with one
  argument is the \<^verbatim>\<open>repr\<close> of the argument.\<close>

definition RuntimeError :: "string \<Rightarrow> pyexc" where
  "RuntimeError msg = PyExc ''RuntimeError'' RuntimeErrorB msg"

definition ValueError :: "string \<Rightarrow> pyexc" where
  "ValueError msg = PyExc ''ValueError'' ValueErrorB msg"

definition KeyError :: "string \<Rightarrow> pyexc" where
  "KeyError arg = PyExc ''KeyError'' KeyErrorB (py_repr arg)"

definition TypeError :: "string \<Rightarrow> pyexc" where
  "TypeError msg = PyExc ''TypeError'' ExceptionB msg"

definition AttributeError :: "string \<Rightarrow> pyexc" where
  "AttributeError msg = PyExc ''AttributeError'' ExceptionB msg"

section \<open>The operations of the interpreter that the handler uses\<close>

text \<open>\<^verbatim>\<open>str.strip()\<close> removes leading and trailing whitespace.\<close>

definition py_isspace :: "char \<Rightarrow> bool" where
  "py_isspace c =
     (let n = (of_char c :: nat) in 9 \<le> n \<and> n \<le> 13 \<or> 28 \<le> n \<and> n \<le> 32 \<or> n = 133 \<or> n = 160)"

definition py_strip :: "string \<Rightarrow> string" where
  "py_strip s = rev (dropWhile py_isspace (rev (dropWhile py_isspace s)))"

text \<open>\<^verbatim>\<open>p in s\<close> for two strings: \<open>p\<close> occurs in \<open>s\<close> as a substring.\<close>

fun py_str_contains :: "string \<Rightarrow> string \<Rightarrow> bool" where
  "py_str_contains p [] = (p = [])"
| "py_str_contains p (c # cs) = (take (length p) (c # cs) = p \<or> py_str_contains p cs)"

text \<open>\<^verbatim>\<open>k in v\<close> for a string \<open>k\<close>: a key of a dict, an element of a list, a substring
  of a string; any other value is not a container.\<close>

definition py_contains :: "string \<Rightarrow> pyval \<Rightarrow> pyexc + bool" where
  "py_contains k v =
     (case v of
        PDict kvs \<Rightarrow> Inr (map_of kvs k \<noteq> None)
      | PList xs \<Rightarrow> Inr (PStr k \<in> set xs)
      | PStr s \<Rightarrow> Inr (py_str_contains k s)
      | _ \<Rightarrow> Inl (TypeError (''argument of type '' @ [CHR 0x27] @ type_name v @ [CHR 0x27]
                              @ '' is not iterable'')))"

text \<open>\<^verbatim>\<open>v[k]\<close> for a string \<open>k\<close>.\<close>

definition py_getitem :: "pyval \<Rightarrow> string \<Rightarrow> pyexc + pyval" where
  "py_getitem v k =
     (case v of
        PDict kvs \<Rightarrow> (case map_of kvs k of Some x \<Rightarrow> Inr x | None \<Rightarrow> Inl (KeyError k))
      | PList xs \<Rightarrow> Inl (TypeError ''list indices must be integers or slices, not str'')
      | PStr s \<Rightarrow> Inl (TypeError (''string indices must be integers, not 'str'' @ [CHR 0x27]))
      | _ \<Rightarrow> Inl (TypeError ([CHR 0x27] @ type_name v @ [CHR 0x27]
                              @ '' object is not subscriptable'')))"

text \<open>\<^verbatim>\<open>v.get(k)\<close>: only a dict has the method.\<close>

definition py_get :: "pyval \<Rightarrow> string \<Rightarrow> pyexc + pyval" where
  "py_get v k =
     (case v of
        PDict kvs \<Rightarrow> Inr (case map_of kvs k of Some x \<Rightarrow> x | None \<Rightarrow> PNone)
      | _ \<Rightarrow> Inl (AttributeError ([CHR 0x27] @ type_name v @ [CHR 0x27]
                                   @ '' object has no attribute 'get'' @ [CHR 0x27])))"

section \<open>The identifier: \<^verbatim>\<open>str(uuid.uuid4())\<close>\<close>

text \<open>
  \<^verbatim>\<open>uuid.uuid4()\<close> is \<^verbatim>\<open>UUID(bytes=os.urandom(16), version=4)\<close>: the 16 random bytes
  are read as a 128-bit integer, the variant and version bits are overwritten
  (\<^verbatim>\<open>int &= ~(0xc000 << 48); int |= 0x8000 << 48; int &= ~(0xf000 << 64); int |= 4 << 76\<close>),
  and \<^verbatim>\<open>str\<close> prints \<^verbatim>\<open>'%032x' % int\<close> cut into groups of 8, 4, 4, 4 and 12 digits.
\<close>

definition uuid4_int :: "128 word \<Rightarrow> 128 word" where
  "uuid4_int r =
     (((r AND NOT (push_bit 48 0xc000)) OR push_bit 48 0x8000)
         AND NOT (push_bit 64 0xf000)) OR push_bit 76 4"

text \<open>The bits of the draw that survive: all but the two variant bits, 62 and 63, and
  the four version bits, 76 to 79.\<close>

definition uuid4_kept_bits :: "128 word" where
  "uuid4_kept_bits = NOT (push_bit 48 0xc000 OR push_bit 64 0xf000)"

definition hex32 :: "128 word \<Rightarrow> string" where
  "hex32 n = map (\<lambda>k. hexdigits ! unat (take_bit 4 (drop_bit (4 * (31 - k)) n))) [0..<32]"

definition uuid_str :: "128 word \<Rightarrow> string" where
  "uuid_str n =
     (let hex = hex32 n
      in take 8 hex @ ''-'' @ take 4 (drop 8 hex) @ ''-'' @ take 4 (drop 12 hex) @ ''-''
           @ take 4 (drop 16 hex) @ ''-'' @ drop 20 hex)"

text \<open>The canonical text of a version-4 UUID: 36 characters, hyphens at 8, 13, 18 and
  23, lower-case hexadecimal digits elsewhere, \<open>4\<close> at 14 and one of \<open>8 9 a b\<close> at 19.\<close>

definition is_uuid4_text :: "string \<Rightarrow> bool" where
  "is_uuid4_text s =
     (length s = 36 \<and>
      list_all (\<lambda>i. if i \<in> {8, 13, 18, 23} then s ! i = CHR ''-'' else s ! i \<in> set hexdigits)
        [0..<36] \<and>
      s ! 14 = CHR ''4'' \<and> s ! 19 \<in> set ''89ab'')"


section \<open>The surroundings of one invocation\<close>

text \<open>
  What the handler reads from outside the repository during one call:
  \<^verbatim>\<open>os.environ.get("TABLE_NAME")\<close>; the decoder \<^verbatim>\<open>json.loads\<close>, which returns a value
  or raises; the 16 bytes that \<^verbatim>\<open>uuid.uuid4()\<close> draws; the store, lines 67 to 70
  (\<^verbatim>\<open>boto3.resource("dynamodb").Table(nombre_tabla).put_item(Item=pelicula)\<close>), which
  returns a response or raises; and \<^verbatim>\<open>traceback.format_exc(limit=n)\<close>, the text of the
  traceback of the exception being handled. Of the store's response the handler reads
  \<^verbatim>\<open>response.get("ResponseMetadata", {}).get("HTTPStatusCode", None)\<close>:
  \<open>ResponseMetadata\<close> is \<open>None\<close> when that key is absent, \<open>Some None\<close> when it has no
  \<open>HTTPStatusCode\<close>.
\<close>

record put_item_output =
  ResponseMetadata :: "int option option"

record world =
  environ_TABLE_NAME :: "string option"
  json_loads :: "string \<Rightarrow> pyexc + pyval"
  urandom16 :: "128 word"
  put_item :: "string \<Rightarrow> pyval \<Rightarrow> pyexc + put_item_output"
  format_exc :: "pyexc \<Rightarrow> nat \<Rightarrow> string"

definition http_status :: "put_item_output \<Rightarrow> pyval" where
  "http_status response =
     (case ResponseMetadata response of
        None \<Rightarrow> PNone
      | Some md \<Rightarrow> (case md of None \<Rightarrow> PNone | Some n \<Rightarrow> PInt n))"

section \<open>\<^verbatim>\<open>_log_info\<close> and \<^verbatim>\<open>_log_error\<close>\<close>

text \<open>
  Both print \<^verbatim>\<open>json.dumps({"tipo": ..., "log_datos": datos}, ensure_ascii=False)\<close>. A
  printed line is modelled by the object that is given to \<^verbatim>\<open>json.dumps\<close>; for the
  values of \<open>pyval\<close> the call does not raise.
\<close>

definition log_info :: "pyval \<Rightarrow> pyval" where
  "log_info datos = PDict [(''tipo'', PStr ''INFO''), (''log_datos'', datos)]"

definition log_error :: "pyval \<Rightarrow> pyval" where
  "log_error datos = PDict [(''tipo'', PStr ''ERROR''), (''log_datos'', datos)]"

section \<open>\<^verbatim>\<open>_parse_event_body\<close>\<close>

definition parse_event_body :: "(string \<Rightarrow> pyexc + pyval) \<Rightarrow> pyval \<Rightarrow> pyexc + pyval" where
  "parse_event_body loads event =
     (case event of
        PDict kvs \<Rightarrow>
          (case map_of kvs ''body'' of
             Some body \<Rightarrow>
               (case body of
                  PStr s \<Rightarrow> if py_strip s \<noteq> [] then loads s else Inr (PDict [])
                | PDict d \<Rightarrow> Inr (PDict d)
                | _ \<Rightarrow> Inl (ValueError ''El campo 'body' debe ser dict o string JSON.''))
           | None \<Rightarrow> Inr event)
      | _ \<Rightarrow> Inr (PDict []))"

section \<open>\<^verbatim>\<open>lambda_handler\<close>\<close>

text \<open>Lines 42 to 64: the table name, the body, the two required keys, the identifier
  and the item. The result is \<open>nombre_tabla\<close>, \<open>tenant_id\<close>, \<open>uuidv4\<close> and \<open>pelicula\<close>,
  or the exception raised.\<close>

definition build_item :: "world \<Rightarrow> pyval \<Rightarrow> pyexc + (string \<times> pyval \<times> string \<times> pyval)" where
  "build_item w event =
     (case environ_TABLE_NAME w of
        None \<Rightarrow> Inl (RuntimeError ''Variable de entorno 'TABLE_NAME' no definida.'')
      | Some nombre_tabla \<Rightarrow>
          if nombre_tabla = [] then
            Inl (RuntimeError ''Variable de entorno 'TABLE_NAME' no definida.'')
          else
            (case parse_event_body (json_loads w) event of
               Inl e \<Rightarrow> Inl e
             | Inr body \<Rightarrow>
                 (case py_contains ''tenant_id'' body of
                    Inl e \<Rightarrow> Inl e
                  | Inr has_tenant \<Rightarrow>
                      if \<not> has_tenant then Inl (KeyError ''Falta 'tenant_id' en el body.'')
                      else
                        (case py_contains ''pelicula_datos'' body of
                           Inl e \<Rightarrow> Inl e
                         | Inr has_datos \<Rightarrow>
                             if \<not> has_datos then
                               Inl (KeyError ''Falta 'pelicula_datos' en el body.'')
                             else
                               (case py_getitem body ''tenant_id'' of
                                  Inl e \<Rightarrow> Inl e
                                | Inr tenant_id \<Rightarrow>
                                    (case py_getitem body ''pelicula_datos'' of
                                       Inl e \<Rightarrow> Inl e
                                     | Inr pelicula_datos \<Rightarrow>
                                         (let uuidv4 = uuid_str (uuid4_int (urandom16 w))
                                          in Inr (nombre_tabla, tenant_id, uuidv4,
                                                  PDict [(''tenant_id'', tenant_id),
                                                         (''uuid'', PStr uuidv4),
                                                         (''pelicula_datos'', pelicula_datos)]))))))))"

text \<open>
  A response is \<^verbatim>\<open>{"statusCode": ..., "body": json.dumps(...)}\<close>; \<open>body\<close> holds the
  object that is given to \<^verbatim>\<open>json.dumps\<close>. A call either returns a response or lets an
  exception escape; \<open>store_calls\<close> lists the items with which it has entered the store
  call of lines 67 to 70, and \<open>stdout\<close> the lines it has printed. The three lines are
  one call of the model: an exception of \<^verbatim>\<open>boto3.resource\<close> or \<^verbatim>\<open>Table\<close> counts as an
  exception of that call.
\<close>

record response =
  statusCode :: int
  body :: pyval

datatype outcome = Returns response | Raises pyexc

record result =
  outcome :: outcome
  store_calls :: "(string \<times> pyval) list"
  stdout :: "pyval list"

definition error_body :: "string \<Rightarrow> string \<Rightarrow> pyval" where
  "error_body mensaje tipo_error =
     PDict [(''error'', PDict [(''mensaje'', PStr mensaje), (''tipo_error'', PStr tipo_error)])]"

text \<open>Lines 40 to 91, the body of \<^verbatim>\<open>try\<close>: the response, or the exception raised in
  it, with the store requests issued and the lines printed.\<close>

definition try_block ::
  "world \<Rightarrow> pyval \<Rightarrow> (pyexc + response) \<times> (string \<times> pyval) list \<times> pyval list" where
  "try_block w event =
     (case build_item w event of
        Inl e \<Rightarrow> (Inl e, [], [])
      | Inr (nombre_tabla, tenant_id, uuidv4, pelicula) \<Rightarrow>
          (case put_item w nombre_tabla pelicula of
             Inl e \<Rightarrow> (Inl e, [(nombre_tabla, pelicula)], [])
           | Inr response \<Rightarrow>
               (Inr \<lparr>statusCode = 200,
                     body = PDict [(''pelicula'', pelicula),
                                   (''response'', PDict [(''http_status'', http_status response)])]\<rparr>,
                [(nombre_tabla, pelicula)],
                [log_info (PDict [(''operacion'', PStr ''crear_pelicula''),
                                  (''estado'', PStr ''ok''),
                                  (''tabla'', PStr nombre_tabla),
                                  (''tenant_id'', tenant_id),
                                  (''uuid'', PStr uuidv4),
                                  (''http_status'', http_status response)])])))"

text \<open>The fields that both \<^verbatim>\<open>except\<close> clauses put in \<open>err\<close>, with the limit of the
  traceback.\<close>

definition err_fields :: "world \<Rightarrow> pyexc \<Rightarrow> nat \<Rightarrow> (string \<times> pyval) list" where
  "err_fields w e limit =
     [(''operacion'', PStr ''crear_pelicula''),
      (''estado'', PStr ''error''),
      (''mensaje'', PStr (e_str e)),
      (''tipo_error'', PStr (e_class_name e)),
      (''traceback'', PStr (format_exc w e limit)),
      (''tabla'', (case environ_TABLE_NAME w of None \<Rightarrow> PNone | Some t \<Rightarrow> PStr t))]"

text \<open>Lines 93 to 125, \<^verbatim>\<open>except (ClientError, ValueError, KeyError, RuntimeError)\<close>.
  The body is parsed again for the log entry, any exception of the parse giving \<open>{}\<close>;
  \<^verbatim>\<open>body_dbg.get("tenant_id")\<close> and \<^verbatim>\<open>"pelicula_datos" in body_dbg\<close> are evaluated
  outside that inner \<^verbatim>\<open>try\<close>, so what they raise leaves the handler, before
  \<^verbatim>\<open>_log_error\<close> is called.\<close>

definition except_expected :: "world \<Rightarrow> pyval \<Rightarrow> pyexc \<Rightarrow> outcome \<times> pyval list" where
  "except_expected w event e =
     (let body_dbg = (case parse_event_body (json_loads w) event of
                        Inl _ \<Rightarrow> PDict []
                      | Inr b \<Rightarrow> b)
      in case py_get body_dbg ''tenant_id'' of
           Inl e' \<Rightarrow> (Raises e', [])
         | Inr tenant_dbg \<Rightarrow>
             (case py_contains ''pelicula_datos'' body_dbg of
                Inl e' \<Rightarrow> (Raises e', [])
              | Inr tiene_pelicula_datos \<Rightarrow>
                  (Returns \<lparr>statusCode =
                              (if e_base e \<in> {ValueErrorB, KeyErrorB, RuntimeErrorB} then 400 else 500),
                            body = error_body (e_str e) (e_class_name e)\<rparr>,
                   [log_error (PDict (err_fields w e 3 @
                      [(''entrada_relevante'',
                        PDict [(''tenant_id'', tenant_dbg),
                               (''tiene_pelicula_datos'', PBool tiene_pelicula_datos)])]))])))"

text \<open>Lines 127 to 147, \<^verbatim>\<open>except Exception\<close>.\<close>

definition except_unexpected :: "world \<Rightarrow> pyexc \<Rightarrow> outcome \<times> pyval list" where
  "except_unexpected w e =
     (Returns \<lparr>statusCode = 500,
               body = error_body ''Error interno inesperado.'' (e_class_name e)\<rparr>,
      [log_error (PDict (err_fields w e 5))])"

text \<open>The whole handler: line 38 prints the event before \<^verbatim>\<open>try\<close>.\<close>

definition lambda_handler :: "world \<Rightarrow> pyval \<Rightarrow> result" where
  "lambda_handler w event =
     (let entrada = log_info (PDict [(''evento_entrada'', event)])
      in case try_block w event of
           (Inr r, calls, printed) \<Rightarrow>
             \<lparr>outcome = Returns r, store_calls = calls, stdout = entrada # printed\<rparr>
         | (Inl e, calls, printed) \<Rightarrow>
             (case (if e_base e \<noteq> ExceptionB then except_expected w event e
                    else except_unexpected w e) of
                (out, printed') \<Rightarrow>
                  \<lparr>outcome = out, store_calls = calls, stdout = entrada # printed @ printed'\<rparr>))"

section \<open>Observations and sample invocations\<close>

text \<open>The status code of the response, when the call returns one.\<close>

definition status_of :: "result \<Rightarrow> int option" where
  "status_of r = (case outcome r of Returns resp \<Rightarrow> Some (statusCode resp) | Raises _ \<Rightarrow> None)"

text \<open>The \<open>uuid\<close> of the \<open>pelicula\<close> record of a response body.\<close>

definition response_uuid :: "response \<Rightarrow> pyval option" where
  "response_uuid resp =
     (case body resp of
        PDict kvs \<Rightarrow>
          (case map_of kvs ''pelicula'' of
             Some (PDict pelicula) \<Rightarrow> map_of pelicula ''uuid''
           | _ \<Rightarrow> None)
      | _ \<Rightarrow> None)"

text \<open>The \<open>tipo_error\<close> of the \<open>error\<close> object of a response body.\<close>

definition tipo_error_of :: "result \<Rightarrow> pyval option" where
  "tipo_error_of r =
     (case outcome r of
        Returns resp \<Rightarrow>
          (case body resp of
             PDict kvs \<Rightarrow>
               (case map_of kvs ''error'' of
                  Some (PDict err) \<Rightarrow> map_of err ''tipo_error''
                | _ \<Rightarrow> None)
           | _ \<Rightarrow> None)
      | Raises _ \<Rightarrow> None)"

text \<open>\<^verbatim>\<open>json.JSONDecodeError\<close> is a subclass of \<^verbatim>\<open>ValueError\<close>.\<close>

definition JSONDecodeError :: "string \<Rightarrow> pyexc" where
  "JSONDecodeError msg = PyExc ''JSONDecodeError'' ValueErrorB msg"

text \<open>What \<^verbatim>\<open>json.loads\<close> does on the five texts \<^verbatim>\<open>[1]\<close>, \<^verbatim>\<open>5\<close>, \<^verbatim>\<open>{\<close>, one blank and
  the empty text; the examples below give the decoder no other argument.\<close>

definition json_loads_fragment :: "string \<Rightarrow> pyexc + pyval" where
  "json_loads_fragment s =
     (if s = ''[1]'' then Inr (PList [PInt 1])
      else if s = ''5'' then Inr (PInt 5)
      else if s = ''{'' then
        Inl (JSONDecodeError
               ''Expecting property name enclosed in double quotes: line 1 column 2 (char 1)'')
      else if s = '' '' then Inl (JSONDecodeError ''Expecting value: line 1 column 2 (char 1)'')
      else Inl (JSONDecodeError ''Expecting value: line 1 column 1 (char 0)''))"

text \<open>Two errors that botocore reports as \<^verbatim>\<open>ClientError\<close>: the store refusing the
  caller, and the store failing on its side, which is raised as an instance of the
  subclass \<^verbatim>\<open>InternalServerError\<close>.\<close>

definition access_denied :: pyexc where
  "access_denied = PyExc ''ClientError'' ClientErrorB
     ''An error occurred (AccessDeniedException) when calling the PutItem operation: not authorized''"

definition internal_server_error :: pyexc where
  "internal_server_error = PyExc ''InternalServerError'' ClientErrorB
     ''An error occurred (InternalServerError) when calling the PutItem operation: Internal server error''"

text \<open>A call with the table name set, a store that accepts the item, and tracebacks
  printed without their frame lines.\<close>

definition world_ok :: world where
  "world_ok =
     \<lparr>environ_TABLE_NAME = Some ''t_peliculas'',
      json_loads = json_loads_fragment,
      urandom16 = 0x0123456789abcdef0123456789abcdef,
      put_item = (\<lambda>tabla item. Inr \<lparr>ResponseMetadata = Some (Some 200)\<rparr>),
      format_exc = (\<lambda>e limit. ''Traceback (most recent call last):'' @ [CHR 0x0A]
                                   @ e_class_name e @ '': '' @ e_str e @ [CHR 0x0A])\<rparr>"

definition world_unset :: world where
  "world_unset = world_ok\<lparr>environ_TABLE_NAME := None\<rparr>"

definition world_denied :: world where
  "world_denied = world_ok\<lparr>put_item := (\<lambda>tabla item. Inl access_denied)\<rparr>"

definition world_store_failing :: world where
  "world_store_failing = world_ok\<lparr>put_item := (\<lambda>tabla item. Inl internal_server_error)\<rparr>"

definition world_other_draw :: world where
  "world_other_draw = world_ok\<lparr>urandom16 := 0xfedcba9876543210fedcba9876543210\<rparr>"

definition world_same_kept_bits :: world where
  "world_same_kept_bits = world_ok\<lparr>urandom16 := 0x0123456789ab1defc123456789abcdef\<rparr>"

definition event_full :: pyval where
  "event_full =
     PDict [(''body'', PDict [(''tenant_id'', PStr ''t1''),
                             (''pelicula_datos'', PDict [(''titulo'', PStr ''X'')])])]"

definition pelicula_full :: pyval where
  "pelicula_full =
     PDict [(''tenant_id'', PStr ''t1''),
            (''uuid'', PStr ''01234567-89ab-4def-8123-456789abcdef''),
            (''pelicula_datos'', PDict [(''titulo'', PStr ''X'')])]"

definition event_sin_datos :: pyval where
  "event_sin_datos = PDict [(''body'', PDict [(''tenant_id'', PStr ''t1'')])]"

definition event_text :: "string \<Rightarrow> pyval" where
  "event_text s = PDict [(''body'', PStr s)]"

definition event_list_body :: pyval where
  "event_list_body = PDict [(''body'', PList [PInt 1])]"

definition event_null_body :: pyval where
  "event_null_body =
     PDict [(''body'', PNone), (''tenant_id'', PStr ''t1''),
            (''pelicula_datos'', PDict [(''titulo'', PStr ''X'')])]"

definition pelicula_other :: pyval where
  "pelicula_other =
     PDict [(''tenant_id'', PStr ''t1''),
            (''uuid'', PStr ''fedcba98-7654-4210-bedc-ba9876543210''),
            (''pelicula_datos'', PDict [(''titulo'', PStr ''X'')])]"

definition response_ok :: "pyval \<Rightarrow> response" where
  "response_ok pelicula =
     \<lparr>statusCode = 200,
      body = PDict [(''pelicula'', pelicula), (''response'', PDict [(''http_status'', PInt 200)])]\<rparr>"

section \<open>The identifier is a canonical version-4 text\<close>

lemma version_nibble: "take_bit 4 (drop_bit 76 (uuid4_int r)) = 4"
  unfolding uuid4_int_def
  by (rule bit_word_eqI) (simp add: bit_simps)

lemma variant_bits: "take_bit 2 (drop_bit 62 (uuid4_int r)) = 2"
  unfolding uuid4_int_def
  by (rule bit_word_eqI) (simp add: bit_simps)

lemma nibble_split:
  fixes u :: "128 word"
  shows "take_bit 4 (drop_bit 60 u)
    = push_bit 2 (take_bit 2 (drop_bit 62 u)) OR take_bit 2 (drop_bit 60 u)"
  by (rule bit_word_eqI) (auto simp add: bit_simps)

lemma length_hexdigits: "length hexdigits = 16"
  by (simp add: hexdigits_def)

lemma distinct_hexdigits: "distinct hexdigits"
  by (simp add: hexdigits_def)

lemma nibble_less: "unat (take_bit 4 (w :: 128 word)) < 16"
  using take_bit_nat_less_exp [of 4 "unat w"] by (simp add: unsigned_take_bit_eq)

lemma nibble_digit: "hexdigits ! unat (take_bit 4 (w :: 128 word)) \<in> set hexdigits"
  using nibble_less [of w] by (simp add: length_hexdigits)

lemma two_bits_cases:
  fixes x :: "128 word"
  shows "take_bit 2 x = 0 \<or> take_bit 2 x = 1 \<or> take_bit 2 x = 2 \<or> take_bit 2 x = 3"
proof -
  have "unat (take_bit 2 x) < 4"
    using take_bit_nat_less_exp [of 2 "unat x"] by (simp add: unsigned_take_bit_eq)
  then have "unat (take_bit 2 x) = 0 \<or> unat (take_bit 2 x) = 1 \<or> unat (take_bit 2 x) = 2
      \<or> unat (take_bit 2 x) = 3"
    by arith
  then show ?thesis
    by (simp add: word_unat_eq_iff)
qed

lemma variant_digit: "hexdigits ! unat (take_bit 4 (drop_bit 60 (uuid4_int r))) \<in> set ''89ab''"
proof -
  have "take_bit 4 (drop_bit 60 (uuid4_int r)) = 8 OR take_bit 2 (drop_bit 60 (uuid4_int r))"
    by (simp add: nibble_split [of "uuid4_int r"] variant_bits)
  then show ?thesis
    using two_bits_cases [of "drop_bit 60 (uuid4_int r)"]
    by (auto simp add: hexdigits_def)
qed

lemma uuid4_canonical: "is_uuid4_text (uuid_str (uuid4_int r))"
proof -
  have "hexdigits ! 4 = CHR ''4''" and "hexdigits ! 4 \<in> set hexdigits"
    by (simp_all add: hexdigits_def)
  moreover note variant_digit [of r]
  ultimately show ?thesis
    unfolding is_uuid4_text_def uuid_str_def Let_def
    by (simp add: hex32_def upt_rec version_nibble nibble_digit)
qed

lemma hex32_inj:
  assumes "hex32 a = hex32 b"
  shows "a = b"
proof -
  have nib: "take_bit 4 (drop_bit (4 * q) a) = take_bit 4 (drop_bit (4 * q) b)"
    if "q < 32" for q
  proof -
    from assms have "hex32 a ! (31 - q) = hex32 b ! (31 - q)"
      by simp
    moreover have "[0..<32] ! (31 - q) = 31 - q"
      by (simp only: nth_upt)
    ultimately have "hexdigits ! unat (take_bit 4 (drop_bit (4 * q) a))
        = hexdigits ! unat (take_bit 4 (drop_bit (4 * q) b))"
      using that by (simp add: hex32_def)
    then have "unat (take_bit 4 (drop_bit (4 * q) a)) = unat (take_bit 4 (drop_bit (4 * q) b))"
      by (simp add: nth_eq_iff_index_eq [OF distinct_hexdigits] length_hexdigits nibble_less)
    then show ?thesis
      by (simp add: word_unat_eq_iff)
  qed
  show ?thesis
  proof (rule bit_word_eqI)
    fix n assume "n < LENGTH(128)"
    then have q: "n div 4 < 32" by simp
    have "bit a n = bit (take_bit 4 (drop_bit (4 * (n div 4)) a)) (n mod 4)"
      by (simp add: bit_simps)
    also have "\<dots> = bit (take_bit 4 (drop_bit (4 * (n div 4)) b)) (n mod 4)"
      by (simp only: nib [OF q])
    also have "\<dots> = bit b n"
      by (simp add: bit_simps)
    finally show "bit a n = bit b n" .
  qed
qed

lemma uuid_str_inj:
  assumes "uuid_str a = uuid_str b"
  shows "a = b"
proof -
  from assms have "hex32 a = hex32 b"
    by (simp add: uuid_str_def Let_def hex32_def upt_rec)
  then show ?thesis
    by (rule hex32_inj)
qed

text \<open>Two draws give the same identifier exactly when they agree on the bits kept.\<close>

lemma mask_algebra:
  fixes r m1 m2 v1 v2 :: "128 word"
  shows "(((r AND NOT m1) OR v1) AND NOT m2) OR v2
    = (r AND NOT (m1 OR m2)) OR ((v1 AND NOT m2) OR v2)"
  by (rule bit_word_eqI) (auto simp add: bit_simps)

lemma uuid4_int_split:
  "uuid4_int r = (r AND uuid4_kept_bits) OR uuid4_int 0"
proof -
  have "uuid4_int 0 = (push_bit 48 0x8000 AND NOT (push_bit 64 0xf000)) OR push_bit 76 (4 :: 128 word)"
    by (simp add: uuid4_int_def)
  then show ?thesis
    unfolding uuid4_int_def uuid4_kept_bits_def by (simp only: mask_algebra)
qed

lemma kept_disjoint: "uuid4_kept_bits AND uuid4_int 0 = 0"
  by (simp add: uuid4_kept_bits_def uuid4_int_def)

lemma or_cancel:
  fixes x y c :: "128 word"
  assumes "x AND c = 0" and "y AND c = 0" and "x OR c = y OR c"
  shows "x = y"
proof (rule bit_word_eqI)
  fix n assume "n < LENGTH(128)"
  from assms(1) have x: "\<not> (bit x n \<and> bit c n)"
    by (metis bit_and_iff bit_0_eq bot_apply bot_bool_def)
  from assms(2) have y: "\<not> (bit y n \<and> bit c n)"
    by (metis bit_and_iff bit_0_eq bot_apply bot_bool_def)
  from assms(3) have "bit (x OR c) n = bit (y OR c) n" by simp
  with x y show "bit x n = bit y n"
    by (auto simp add: bit_or_iff)
qed

lemma uuid4_int_eq_iff:
  "uuid4_int a = uuid4_int b \<longleftrightarrow> a AND uuid4_kept_bits = b AND uuid4_kept_bits"
proof
  assume "uuid4_int a = uuid4_int b"
  then have "(a AND uuid4_kept_bits) OR uuid4_int 0 = (b AND uuid4_kept_bits) OR uuid4_int 0"
    by (simp only: uuid4_int_split [symmetric])
  moreover have "(a AND uuid4_kept_bits) AND uuid4_int 0 = 0"
    and "(b AND uuid4_kept_bits) AND uuid4_int 0 = 0"
    by (simp_all add: and.assoc kept_disjoint)
  ultimately show "a AND uuid4_kept_bits = b AND uuid4_kept_bits"
    by (rule or_cancel [rotated 2])
next
  assume "a AND uuid4_kept_bits = b AND uuid4_kept_bits"
  then show "uuid4_int a = uuid4_int b"
    by (simp add: uuid4_int_split [of a] uuid4_int_split [of b])
qed

section \<open>The paths of the handler\<close>

lemma exc_simps [simp]:
  "e_base (RuntimeError m) = RuntimeErrorB" "e_base (ValueError m) = ValueErrorB"
  "e_base (KeyError m) = KeyErrorB" "e_base (TypeError m) = ExceptionB"
  "e_base (AttributeError m) = ExceptionB" "e_base (JSONDecodeError m) = ValueErrorB"
  "e_class_name (RuntimeError m) = ''RuntimeError''"
  "e_class_name (ValueError m) = ''ValueError''"
  "e_class_name (KeyError m) = ''KeyError''" "e_class_name (TypeError m) = ''TypeError''"
  "e_class_name (AttributeError m) = ''AttributeError''"
  "e_class_name (JSONDecodeError m) = ''JSONDecodeError''"
  "e_str (RuntimeError m) = m" "e_str (ValueError m) = m" "e_str (KeyError m) = py_repr m"
  "e_str (TypeError m) = m" "e_str (AttributeError m) = m" "e_str (JSONDecodeError m) = m"
  by (simp_all add: RuntimeError_def ValueError_def KeyError_def TypeError_def
      AttributeError_def JSONDecodeError_def)

lemma build_item_Inr_iff:
  "build_item w event = Inr (tabla, tenant_id, uuidv4, pelicula) \<longleftrightarrow>
     (\<exists>kvs pelicula_datos.
        environ_TABLE_NAME w = Some tabla \<and> tabla \<noteq> [] \<and>
        parse_event_body (json_loads w) event = Inr (PDict kvs) \<and>
        map_of kvs ''tenant_id'' = Some tenant_id \<and>
        map_of kvs ''pelicula_datos'' = Some pelicula_datos \<and>
        uuidv4 = uuid_str (uuid4_int (urandom16 w)) \<and>
        pelicula = PDict [(''tenant_id'', tenant_id), (''uuid'', PStr uuidv4),
                          (''pelicula_datos'', pelicula_datos)])"
  unfolding build_item_def py_contains_def py_getitem_def Let_def
  by (auto split: option.splits sum.splits pyval.splits if_splits)

lemma outcome_lambda_handler:
  "outcome (lambda_handler w event) =
     (case fst (try_block w event) of
        Inr r \<Rightarrow> Returns r
      | Inl e \<Rightarrow> if e_base e \<noteq> ExceptionB then fst (except_expected w event e)
                 else fst (except_unexpected w e))"
  by (simp add: lambda_handler_def Let_def split: prod.splits sum.splits)

lemma store_calls_lambda_handler:
  "store_calls (lambda_handler w event) = fst (snd (try_block w event))"
  by (simp add: lambda_handler_def Let_def split: prod.splits sum.splits)

lemma except_unexpected_returns:
  "fst (except_unexpected w e) =
     Returns \<lparr>statusCode = 500,
              body = error_body ''Error interno inesperado.'' (e_class_name e)\<rparr>"
  by (simp add: except_unexpected_def)

lemma except_expected_dict:
  "parse_event_body (json_loads w) event = Inr (PDict kvs) \<Longrightarrow>
   fst (except_expected w event e) =
     Returns \<lparr>statusCode = (if e_base e \<in> {ValueErrorB, KeyErrorB, RuntimeErrorB} then 400 else 500),
              body = error_body (e_str e) (e_class_name e)\<rparr>"
  by (simp add: except_expected_def py_get_def py_contains_def)

lemma except_expected_parse_raises:
  "parse_event_body (json_loads w) event = Inl x \<Longrightarrow>
   fst (except_expected w event e) =
     Returns \<lparr>statusCode = (if e_base e \<in> {ValueErrorB, KeyErrorB, RuntimeErrorB} then 400 else 500),
              body = error_body (e_str e) (e_class_name e)\<rparr>"
  by (simp add: except_expected_def py_get_def py_contains_def)

lemma py_strip_Nil_iff: "py_strip s = [] \<longleftrightarrow> (\<forall>c\<in>set s. py_isspace c)"
proof
  assume "py_strip s = []"
  then have all: "\<forall>x\<in>set (dropWhile py_isspace s). py_isspace x"
    by (simp add: py_strip_def dropWhile_eq_Nil_conv)
  have "dropWhile py_isspace s = []"
  proof (rule ccontr)
    assume ne: "dropWhile py_isspace s \<noteq> []"
    then have "\<not> py_isspace (hd (dropWhile py_isspace s))"
      by (rule hd_dropWhile)
    moreover from ne have "hd (dropWhile py_isspace s) \<in> set (dropWhile py_isspace s)"
      by simp
    ultimately show False using all by blast
  qed
  then show "\<forall>c\<in>set s. py_isspace c"
    by (simp add: dropWhile_eq_Nil_conv)
next
  assume "\<forall>c\<in>set s. py_isspace c"
  then have "dropWhile py_isspace s = []"
    by (simp add: dropWhile_eq_Nil_conv)
  then show "py_strip s = []"
    unfolding py_strip_def by (simp only: rev.simps dropWhile.simps)
qed

lemma repr_falta_tenant:
  "py_repr ''Falta 'tenant_id' en el body.''
     = [CHR 0x22] @ ''Falta 'tenant_id' en el body.'' @ [CHR 0x22]"
  by code_simp

lemma build_item_unset:
  "environ_TABLE_NAME w = None \<or> environ_TABLE_NAME w = Some [] \<Longrightarrow>
   build_item w event = Inl (RuntimeError ''Variable de entorno 'TABLE_NAME' no definida.'')"
  by (auto simp add: build_item_def)

lemma build_item_parse_raises:
  "environ_TABLE_NAME w = Some tabla \<Longrightarrow> tabla \<noteq> [] \<Longrightarrow>
   parse_event_body (json_loads w) event = Inl e \<Longrightarrow> build_item w event = Inl e"
  by (simp add: build_item_def)

lemma build_item_missing:
  "environ_TABLE_NAME w = Some tabla \<Longrightarrow> tabla \<noteq> [] \<Longrightarrow>
   parse_event_body (json_loads w) event = Inr (PDict kvs) \<Longrightarrow>
   map_of kvs ''tenant_id'' = None \<or> map_of kvs ''pelicula_datos'' = None \<Longrightarrow>
   build_item w event =
     Inl (KeyError (if map_of kvs ''tenant_id'' = None then ''Falta 'tenant_id' en el body.''
                    else ''Falta 'pelicula_datos' en el body.''))"
  by (auto simp add: build_item_def py_contains_def)

lemma build_item_client_error:
  "build_item w event = Inl e \<Longrightarrow> e_base e = ClientErrorB \<Longrightarrow>
   parse_event_body (json_loads w) event = Inl e"
  unfolding build_item_def py_contains_def py_getitem_def Let_def
  by (auto split: option.splits sum.splits pyval.splits if_splits)

lemma success_response_uuid:
  assumes "outcome (lambda_handler w event) = Returns r" and "statusCode r = 200"
  shows "response_uuid r = Some (PStr (uuid_str (uuid4_int (urandom16 w))))"
  using assms
  unfolding outcome_lambda_handler try_block_def except_expected_def except_unexpected_def
  by (auto simp add: build_item_Inr_iff response_uuid_def Let_def
      split: sum.splits prod.splits if_splits)

text \<open>The handler returns a response whenever the second parse of the body, the one of
  the \<^verbatim>\<open>except\<close> clause, gives a dict or raises.\<close>

lemma handler_returns_when_reparse_is_dict:
  assumes "\<And>b. parse_event_body (json_loads w) event = Inr b \<Longrightarrow> \<exists>kvs. b = PDict kvs"
  shows "\<exists>r. outcome (lambda_handler w event) = Returns r"
proof (cases "parse_event_body (json_loads w) event")
  case (Inl x)
  then show ?thesis
    by (simp add: outcome_lambda_handler except_expected_parse_raises except_unexpected_returns
        split: sum.splits)
next
  case (Inr b)
  with assms obtain kvs where "parse_event_body (json_loads w) event = Inr (PDict kvs)"
    by blast
  then show ?thesis
    by (simp add: outcome_lambda_handler except_expected_dict except_unexpected_returns
        split: sum.splits)
qed

text \<open>Under the same condition a missing or empty table name gives status 400 with the
  \<^verbatim>\<open>RuntimeError\<close> of line 44, before the body is looked at and without a store
  request.\<close>

lemma config_error_status_400:
  assumes "environ_TABLE_NAME w = None \<or> environ_TABLE_NAME w = Some []"
    and "\<And>b. parse_event_body (json_loads w) event = Inr b \<Longrightarrow> \<exists>kvs. b = PDict kvs"
  shows "outcome (lambda_handler w event) =
      Returns \<lparr>statusCode = 400,
        body = error_body ''Variable de entorno 'TABLE_NAME' no definida.'' ''RuntimeError''\<rparr>"
    and "store_calls (lambda_handler w event) = []"
proof -
  have t: "try_block w event =
      (Inl (RuntimeError ''Variable de entorno 'TABLE_NAME' no definida.''), [], [])"
    by (simp add: try_block_def build_item_unset [OF assms(1)])
  then show "store_calls (lambda_handler w event) = []"
    by (simp add: store_calls_lambda_handler)
  show "outcome (lambda_handler w event) =
      Returns \<lparr>statusCode = 400,
        body = error_body ''Variable de entorno 'TABLE_NAME' no definida.'' ''RuntimeError''\<rparr>"
  proof (cases "parse_event_body (json_loads w) event")
    case (Inl x)
    with t show ?thesis
      by (simp add: outcome_lambda_handler except_expected_parse_raises)
  next
    case (Inr b)
    with assms(2) obtain kvs where "parse_event_body (json_loads w) event = Inr (PDict kvs)"
      by blast
    with t show ?thesis
      by (simp add: outcome_lambda_handler except_expected_dict)
  qed
qed

text \<open>Every call prints the event first. A call that lets an exception escape prints
  nothing else; a call that returns prints one more line, an \<open>ERROR\<close> line unless the
  status is 200.\<close>

lemma stdout_first_line:
  "\<exists>rest. stdout (lambda_handler w event) = log_info (PDict [(''evento_entrada'', event)]) # rest"
  by (simp add: lambda_handler_def Let_def split: prod.splits sum.splits)

lemma stdout_when_raising:
  assumes "outcome (lambda_handler w event) = Raises x"
  shows "stdout (lambda_handler w event) = [log_info (PDict [(''evento_entrada'', event)])]"
  using assms
  unfolding lambda_handler_def try_block_def except_expected_def except_unexpected_def
  by (auto simp add: Let_def split: prod.splits sum.splits if_splits)

lemma stdout_when_returning:
  assumes "outcome (lambda_handler w event) = Returns r"
  shows "\<exists>datos. stdout (lambda_handler w event) =
    [log_info (PDict [(''evento_entrada'', event)]),
     (if statusCode r = 200 then log_info datos else log_error datos)]"
  using assms
  unfolding lambda_handler_def try_block_def except_expected_def except_unexpected_def
  by (auto simp add: Let_def split: prod.splits sum.splits if_splits)

text \<open>An exception leaves the handler exactly when the body of \<^verbatim>\<open>try\<close> raises one of
  the classes of line 93 and the second parse of the body gives a value that is no dict:
  a body string that is valid JSON for a list, a string, a number, a boolean or
  \<open>null\<close>.\<close>

lemma except_expected_not_dict:
  assumes "parse_event_body (json_loads w) event = Inr b" and "type_name b \<noteq> ''dict''"
  shows "fst (except_expected w event e) =
    Raises (AttributeError ([CHR 0x27] @ type_name b @ [CHR 0x27]
                            @ '' object has no attribute 'get'' @ [CHR 0x27]))"
  using assms by (cases b) (simp_all add: except_expected_def py_get_def)

lemma handler_raises_iff:
  "(\<exists>x. outcome (lambda_handler w event) = Raises x) \<longleftrightarrow>
   (\<exists>b e. parse_event_body (json_loads w) event = Inr b \<and> type_name b \<noteq> ''dict'' \<and>
          fst (try_block w event) = Inl e \<and> e_base e \<noteq> ExceptionB)"
proof
  assume "\<exists>x. outcome (lambda_handler w event) = Raises x"
  then obtain x where x: "outcome (lambda_handler w event) = Raises x" ..
  show "\<exists>b e. parse_event_body (json_loads w) event = Inr b \<and> type_name b \<noteq> ''dict'' \<and>
          fst (try_block w event) = Inl e \<and> e_base e \<noteq> ExceptionB"
  proof (cases "fst (try_block w event)")
    case (Inr r)
    with x show ?thesis by (simp add: outcome_lambda_handler)
  next
    case (Inl e)
    show ?thesis
    proof (cases "e_base e = ExceptionB")
      case True
      with x Inl show ?thesis
        by (simp add: outcome_lambda_handler except_unexpected_returns)
    next
      case False
      show ?thesis
      proof (cases "parse_event_body (json_loads w) event")
        case (Inl y)
        with x \<open>fst (try_block w event) = Inl e\<close> False show ?thesis
          by (simp add: outcome_lambda_handler except_expected_parse_raises)
      next
        case (Inr b)
        show ?thesis
        proof (cases b)
          case (PDict kvs)
          with Inr x \<open>fst (try_block w event) = Inl e\<close> False show ?thesis
            by (simp add: outcome_lambda_handler except_expected_dict)
        qed (use Inr \<open>fst (try_block w event) = Inl e\<close> False in auto)
      qed
    qed
  qed
next
  assume "\<exists>b e. parse_event_body (json_loads w) event = Inr b \<and> type_name b \<noteq> ''dict'' \<and>
          fst (try_block w event) = Inl e \<and> e_base e \<noteq> ExceptionB"
  then obtain b e where "parse_event_body (json_loads w) event = Inr b" "type_name b \<noteq> ''dict''"
    "fst (try_block w event) = Inl e" "e_base e \<noteq> ExceptionB"
    by blast
  then show "\<exists>x. outcome (lambda_handler w event) = Raises x"
    by (simp add: outcome_lambda_handler except_expected_not_dict)
qed

section \<open>Claims\<close>

text \<open>
  C1, as the source has it. When the handler has issued the store request and
  \<^verbatim>\<open>put_item\<close> raises a \<^verbatim>\<open>ClientError\<close>, the response has status 500 (line 116 gives
  400 only to \<^verbatim>\<open>ValueError\<close>, \<^verbatim>\<open>KeyError\<close> and \<^verbatim>\<open>RuntimeError\<close>), its \<open>mensaje\<close>
  is the text of the exception and its \<open>tipo_error\<close> the name of its class.
\<close>

theorem store_client_error_status_500:
  assumes "build_item w event = Inr (tabla, tenant_id, uuidv4, pelicula)"
    and "put_item w tabla pelicula = Inl e"
    and "e_base e = ClientErrorB"
  shows "outcome (lambda_handler w event) =
      Returns \<lparr>statusCode = 500, body = error_body (e_str e) (e_class_name e)\<rparr>
    \<and> store_calls (lambda_handler w event) = [(tabla, pelicula)]"
proof -
  from assms(1) obtain kvs where "parse_event_body (json_loads w) event = Inr (PDict kvs)"
    by (auto simp add: build_item_Inr_iff)
  then have "fst (except_expected w event e) =
      Returns \<lparr>statusCode = 500, body = error_body (e_str e) (e_class_name e)\<rparr>"
    using assms(3) by (simp add: except_expected_dict)
  with assms show ?thesis
    by (simp add: outcome_lambda_handler store_calls_lambda_handler try_block_def)
qed

text \<open>The example request of the specification, with a store that refuses the caller.\<close>

theorem store_client_error_status_500_witness:
  "build_item world_denied event_full =
     Inr (''t_peliculas'', PStr ''t1'', ''01234567-89ab-4def-8123-456789abcdef'', pelicula_full) \<and>
   put_item world_denied ''t_peliculas'' pelicula_full = Inl access_denied \<and>
   e_base access_denied = ClientErrorB \<and>
   outcome (lambda_handler world_denied event_full) =
     Returns \<lparr>statusCode = 500, body = error_body (e_str access_denied) ''ClientError''\<rparr> \<and>
   store_calls (lambda_handler world_denied event_full) = [(''t_peliculas'', pelicula_full)]"
proof -
  have b: "build_item world_denied event_full =
      Inr (''t_peliculas'', PStr ''t1'', ''01234567-89ab-4def-8123-456789abcdef'', pelicula_full)"
    by code_simp
  have p: "put_item world_denied ''t_peliculas'' pelicula_full = Inl access_denied"
    by (simp add: world_denied_def)
  have c: "e_base access_denied = ClientErrorB"
    by (simp add: access_denied_def)
  from store_client_error_status_500 [OF b p c] b p c show ?thesis
    by (simp add: access_denied_def)
qed

text \<open>
  C1 as stated fails: the store refuses the caller with \<^verbatim>\<open>AccessDeniedException\<close>, a
  client-side \<^verbatim>\<open>ClientError\<close>, and the status is 500, not 400.
\<close>

theorem store_client_error_400_counterexample:
  "put_item world_denied ''t_peliculas'' pelicula_full = Inl access_denied \<and>
   e_base access_denied = ClientErrorB \<and>
   store_calls (lambda_handler world_denied event_full) = [(''t_peliculas'', pelicula_full)] \<and>
   status_of (lambda_handler world_denied event_full) = Some 500 \<and>
   status_of (lambda_handler world_denied event_full) \<noteq> Some 400"
  by code_simp

text \<open>
  C2 says that \<^verbatim>\<open>lambda_handler\<close> returns a response for every event and lets no
  exception escape. The source does not keep it: for the event
  \<^verbatim>\<open>{"body": "[1]"}\<close> the body decodes to a list, line 49 raises \<^verbatim>\<open>KeyError\<close>, and in
  the \<^verbatim>\<open>except\<close> clause \<^verbatim>\<open>body_dbg.get("tenant_id")\<close> (line 109) raises
  \<^verbatim>\<open>AttributeError\<close>, which leaves the handler.
\<close>

theorem handler_raises_on_list_text:
  "json_loads world_ok ''[1]'' = Inr (PList [PInt 1]) \<and>
   outcome (lambda_handler world_ok (event_text ''[1]'')) =
     Raises (AttributeError ([CHR 0x27] @ ''list'' @ [CHR 0x27] @ '' object has no attribute 'get''
                              @ [CHR 0x27])) \<and>
   status_of (lambda_handler world_ok (event_text ''[1]'')) = None"
  by code_simp

text \<open>
  C3, as the source has it. With the table name configured, a resolved body that is a
  mapping holding \<open>tenant_id\<close> and \<open>pelicula_datos\<close>, and a store write that returns,
  the handler returns status 200; the body carries the record with both values as they
  came, the identifier generated in this call and the status reported by the store; the
  one store request is that record. The identifier is a canonical version-4 text,
  whatever the 16 random bytes are. It is computed from those bytes alone and checked
  against nothing: another successful call carries the same identifier exactly when its
  random bytes agree with this call's on the 122 bits that \<^verbatim>\<open>uuid4\<close> keeps, and a
  different one otherwise.
\<close>

theorem create_record_success:
  assumes "environ_TABLE_NAME w = Some tabla" and "tabla \<noteq> []"
    and "parse_event_body (json_loads w) event = Inr (PDict kvs)"
    and "map_of kvs ''tenant_id'' = Some tenant_id"
    and "map_of kvs ''pelicula_datos'' = Some pelicula_datos"
    and "uuid = uuid_str (uuid4_int (urandom16 w))"
    and "pelicula = PDict [(''tenant_id'', tenant_id), (''uuid'', PStr uuid),
                           (''pelicula_datos'', pelicula_datos)]"
    and "put_item w tabla pelicula = Inr response"
  shows "outcome (lambda_handler w event) =
      Returns \<lparr>statusCode = 200,
          body = PDict [(''pelicula'', pelicula),
                        (''response'', PDict [(''http_status'', http_status response)])]\<rparr>
    \<and> store_calls (lambda_handler w event) = [(tabla, pelicula)]
    \<and> is_uuid4_text uuid
    \<and> (\<forall>w' event' r'.
          outcome (lambda_handler w' event') = Returns r' \<and> statusCode r' = 200
          \<longrightarrow> (response_uuid r' = Some (PStr uuid)) =
               (urandom16 w' AND uuid4_kept_bits = urandom16 w AND uuid4_kept_bits))"
proof -
  have "build_item w event = Inr (tabla, tenant_id, uuid, pelicula)"
    using assms by (simp add: build_item_Inr_iff)
  then have "outcome (lambda_handler w event) =
      Returns \<lparr>statusCode = 200,
          body = PDict [(''pelicula'', pelicula),
                        (''response'', PDict [(''http_status'', http_status response)])]\<rparr>
    \<and> store_calls (lambda_handler w event) = [(tabla, pelicula)]"
    using assms(8) by (simp add: outcome_lambda_handler store_calls_lambda_handler try_block_def)
  moreover have "is_uuid4_text uuid"
    by (simp add: assms(6) uuid4_canonical)
  moreover have "(response_uuid r' = Some (PStr uuid)) =
      (urandom16 w' AND uuid4_kept_bits = urandom16 w AND uuid4_kept_bits)"
    if "outcome (lambda_handler w' event') = Returns r'" and "statusCode r' = 200"
    for w' event' r'
  proof -
    from that have "response_uuid r' = Some (PStr (uuid_str (uuid4_int (urandom16 w'))))"
      by (rule success_response_uuid)
    moreover have "(uuid_str (uuid4_int (urandom16 w')) = uuid_str (uuid4_int (urandom16 w)))
        = (uuid4_int (urandom16 w') = uuid4_int (urandom16 w))"
      by (auto dest: uuid_str_inj)
    ultimately show ?thesis
      by (simp add: assms(6) uuid4_int_eq_iff)
  qed
  ultimately show ?thesis by blast
qed

text \<open>The example of the specification,
  \<^verbatim>\<open>{"body": {"tenant_id": "t1", "pelicula_datos": {"titulo": "X"}}}\<close>, and the same
  request in a call that draws other random bytes.\<close>

theorem create_record_success_witness:
  "outcome (lambda_handler world_ok event_full) = Returns (response_ok pelicula_full)
   \<and> store_calls (lambda_handler world_ok event_full) = [(''t_peliculas'', pelicula_full)]
   \<and> is_uuid4_text ''01234567-89ab-4def-8123-456789abcdef''
   \<and> outcome (lambda_handler world_other_draw event_full) = Returns (response_ok pelicula_other)
   \<and> urandom16 world_other_draw AND uuid4_kept_bits \<noteq> urandom16 world_ok AND uuid4_kept_bits
   \<and> response_uuid (response_ok pelicula_other) \<noteq> Some (PStr ''01234567-89ab-4def-8123-456789abcdef'')"
proof -
  have 1: "environ_TABLE_NAME world_ok = Some ''t_peliculas''" and 2: "''t_peliculas'' \<noteq> []"
    by (simp_all add: world_ok_def)
  have 3: "parse_event_body (json_loads world_ok) event_full =
      Inr (PDict [(''tenant_id'', PStr ''t1''), (''pelicula_datos'', PDict [(''titulo'', PStr ''X'')])])"
    by code_simp
  have 4: "map_of [(''tenant_id'', PStr ''t1''), (''pelicula_datos'', PDict [(''titulo'', PStr ''X'')])]
      ''tenant_id'' = Some (PStr ''t1'')"
    and 5: "map_of [(''tenant_id'', PStr ''t1''), (''pelicula_datos'', PDict [(''titulo'', PStr ''X'')])]
      ''pelicula_datos'' = Some (PDict [(''titulo'', PStr ''X'')])"
    by simp_all
  have 6: "''01234567-89ab-4def-8123-456789abcdef'' = uuid_str (uuid4_int (urandom16 world_ok))"
    by code_simp
  have 7: "pelicula_full = PDict [(''tenant_id'', PStr ''t1''),
      (''uuid'', PStr ''01234567-89ab-4def-8123-456789abcdef''),
      (''pelicula_datos'', PDict [(''titulo'', PStr ''X'')])]"
    by (simp add: pelicula_full_def)
  have 8: "put_item world_ok ''t_peliculas'' pelicula_full = Inr \<lparr>ResponseMetadata = Some (Some 200)\<rparr>"
    by (simp add: world_ok_def)
  have o: "outcome (lambda_handler world_other_draw event_full) = Returns (response_ok pelicula_other)"
    by code_simp
  have s: "statusCode (response_ok pelicula_other) = 200"
    by (simp add: response_ok_def)
  have d: "urandom16 world_other_draw AND uuid4_kept_bits \<noteq> urandom16 world_ok AND uuid4_kept_bits"
    by code_simp
  have h: "http_status \<lparr>ResponseMetadata = Some (Some 200)\<rparr> = PInt 200"
    by (simp add: http_status_def)
  note th = create_record_success [OF 1 2 3 4 5 6 7 8]
  from th [THEN conjunct2, THEN conjunct2, THEN conjunct2, rule_format,
      of world_other_draw event_full "response_ok pelicula_other"] o s d
  have "response_uuid (response_ok pelicula_other)
      \<noteq> Some (PStr ''01234567-89ab-4def-8123-456789abcdef'')"
    by simp
  with th o d h show ?thesis
    by (simp add: response_ok_def)
qed

text \<open>
  C3 as stated fails on the distinctness of the identifier. Two calls that draw
  different random bytes, differing in the version and variant bits only, return the
  same identifier; so do two calls that draw the same bytes.
\<close>

theorem create_record_same_uuid_counterexample:
  "urandom16 world_ok \<noteq> urandom16 world_same_kept_bits \<and>
   outcome (lambda_handler world_ok event_full) = Returns (response_ok pelicula_full) \<and>
   outcome (lambda_handler world_same_kept_bits event_full) = Returns (response_ok pelicula_full) \<and>
   response_uuid (response_ok pelicula_full) = Some (PStr ''01234567-89ab-4def-8123-456789abcdef'')"
  by code_simp

text \<open>
  C4, as the source has it. When the body of \<^verbatim>\<open>try\<close> raises an exception that is no
  \<^verbatim>\<open>ValueError\<close>, \<^verbatim>\<open>KeyError\<close> or \<^verbatim>\<open>RuntimeError\<close>, the response has status 500 and
  names the class of the exception. Its \<open>mensaje\<close> is the fixed text
  \<^verbatim>\<open>Error interno inesperado.\<close>, except for a \<^verbatim>\<open>ClientError\<close>, the store's report of
  a client-side or server-side error, where it is the text of the exception.
\<close>

theorem unexpected_failure_status_500:
  assumes "try_block w event = (Inl e, calls, printed)"
    and "e_base e \<notin> {ValueErrorB, KeyErrorB, RuntimeErrorB}"
  shows "outcome (lambda_handler w event) =
      Returns \<lparr>statusCode = 500,
        body = error_body (if e_base e = ClientErrorB then e_str e
                           else ''Error interno inesperado.'') (e_class_name e)\<rparr>
    \<and> store_calls (lambda_handler w event) = calls"
proof (cases "e_base e = ClientErrorB")
  case False
  with assms(2) have "e_base e = ExceptionB"
    by (cases "e_base e") simp_all
  with assms(1) show ?thesis
    by (simp add: outcome_lambda_handler store_calls_lambda_handler except_unexpected_returns)
next
  case True
  have "fst (except_expected w event e) =
      Returns \<lparr>statusCode = 500, body = error_body (e_str e) (e_class_name e)\<rparr>"
  proof (cases "build_item w event")
    case (Inl x)
    with assms(1) have "x = e"
      by (simp add: try_block_def)
    with Inl True have "parse_event_body (json_loads w) event = Inl e"
      by (simp add: build_item_client_error)
    with True show ?thesis
      by (simp add: except_expected_parse_raises)
  next
    case (Inr p)
    then obtain kvs where "parse_event_body (json_loads w) event = Inr (PDict kvs)"
      by (cases p) (auto simp add: build_item_Inr_iff)
    with True show ?thesis
      by (simp add: except_expected_dict)
  qed
  with assms(1) True show ?thesis
    by (simp add: outcome_lambda_handler store_calls_lambda_handler)
qed

text \<open>A body that decodes to the number 5, where line 48 raises \<^verbatim>\<open>TypeError\<close>, and a
  store that fails on its side.\<close>

theorem unexpected_failure_status_500_witness:
  "try_block world_ok (event_text ''5'') =
     (Inl (TypeError (''argument of type 'int' is not iterable'')), [], []) \<and>
   outcome (lambda_handler world_ok (event_text ''5'')) =
     Returns \<lparr>statusCode = 500,
        body = error_body ''Error interno inesperado.'' ''TypeError''\<rparr> \<and>
   store_calls (lambda_handler world_ok (event_text ''5'')) = [] \<and>
   try_block world_store_failing event_full =
     (Inl internal_server_error, [(''t_peliculas'', pelicula_full)], []) \<and>
   outcome (lambda_handler world_store_failing event_full) =
     Returns \<lparr>statusCode = 500,
        body = error_body (e_str internal_server_error) ''InternalServerError''\<rparr> \<and>
   store_calls (lambda_handler world_store_failing event_full) = [(''t_peliculas'', pelicula_full)]"
proof -
  have t1: "try_block world_ok (event_text ''5'') =
      (Inl (TypeError (''argument of type 'int' is not iterable'')), [], [])"
    by code_simp
  have b1: "e_base (TypeError (''argument of type 'int' is not iterable''))
      \<notin> {ValueErrorB, KeyErrorB, RuntimeErrorB}"
    by simp
  have t2: "try_block world_store_failing event_full =
      (Inl internal_server_error, [(''t_peliculas'', pelicula_full)], [])"
    by code_simp
  have b2: "e_base internal_server_error \<notin> {ValueErrorB, KeyErrorB, RuntimeErrorB}"
    by (simp add: internal_server_error_def)
  from unexpected_failure_status_500 [OF t1 b1] unexpected_failure_status_500 [OF t2 b2] t1 t2
  show ?thesis
    by (simp add: internal_server_error_def)
qed

text \<open>
  C4 as stated fails: the store reports a server-side error, the status is 500, and the
  \<open>mensaje\<close> of the response is the text of the exception, not the fixed one.
\<close>

theorem server_error_message_counterexample:
  "put_item world_store_failing ''t_peliculas'' pelicula_full = Inl internal_server_error \<and>
   outcome (lambda_handler world_store_failing event_full) =
     Returns \<lparr>statusCode = 500,
              body = error_body (e_str internal_server_error) ''InternalServerError''\<rparr> \<and>
   e_str internal_server_error =
     ''An error occurred (InternalServerError) when calling the PutItem operation: Internal server error'' \<and>
   e_str internal_server_error \<noteq> ''Error interno inesperado.''"
  by code_simp

text \<open>
  C5, as the source has it. With the table name configured, every request whose resolved
  body is a mapping without \<open>tenant_id\<close>, or with it and without \<open>pelicula_datos\<close>, gets
  status 400 with \<open>tipo_error\<close> \<^verbatim>\<open>KeyError\<close>, the class the source raises for a
  missing field, and no store request. So does \<^verbatim>\<open>{"body": {"tenant_id": "t1"}}\<close>. The
  text of \<open>mensaje\<close> is left open.
\<close>

theorem missing_field_status_400:
  assumes "environ_TABLE_NAME w = Some tabla" and "tabla \<noteq> []"
  shows "(\<forall>event kvs.
            parse_event_body (json_loads w) event = Inr (PDict kvs) \<and>
            (map_of kvs ''tenant_id'' = None \<or> map_of kvs ''pelicula_datos'' = None)
            \<longrightarrow> status_of (lambda_handler w event) = Some 400
                \<and> tipo_error_of (lambda_handler w event) = Some (PStr ''KeyError'')
                \<and> store_calls (lambda_handler w event) = [])
    \<and> status_of (lambda_handler w event_sin_datos) = Some 400
    \<and> tipo_error_of (lambda_handler w event_sin_datos) = Some (PStr ''KeyError'')
    \<and> store_calls (lambda_handler w event_sin_datos) = []"
proof -
  have general: "status_of (lambda_handler w event) = Some 400
      \<and> tipo_error_of (lambda_handler w event) = Some (PStr ''KeyError'')
      \<and> store_calls (lambda_handler w event) = []"
    if p: "parse_event_body (json_loads w) event = Inr (PDict kvs)"
      and m: "map_of kvs ''tenant_id'' = None \<or> map_of kvs ''pelicula_datos'' = None"
    for event kvs
  proof -
    have "try_block w event =
        (Inl (KeyError (if map_of kvs ''tenant_id'' = None then ''Falta 'tenant_id' en el body.''
                        else ''Falta 'pelicula_datos' en el body.'')), [], [])"
      by (simp add: try_block_def build_item_missing [OF assms p m])
    then show ?thesis
      by (simp add: status_of_def tipo_error_of_def error_body_def outcome_lambda_handler
          store_calls_lambda_handler except_expected_dict [OF p])
  qed
  have "parse_event_body (json_loads w) event_sin_datos = Inr (PDict [(''tenant_id'', PStr ''t1'')])"
    by (simp add: parse_event_body_def event_sin_datos_def)
  from general [OF this] have "status_of (lambda_handler w event_sin_datos) = Some 400
    \<and> tipo_error_of (lambda_handler w event_sin_datos) = Some (PStr ''KeyError'')
    \<and> store_calls (lambda_handler w event_sin_datos) = []"
    by simp
  with general show ?thesis by blast
qed

text \<open>An empty text as body, which resolves to the empty mapping, and the example
  of the specification.\<close>

theorem missing_field_status_400_witness:
  "environ_TABLE_NAME world_ok = Some ''t_peliculas'' \<and>
   parse_event_body (json_loads world_ok) (event_text '''') = Inr (PDict []) \<and>
   status_of (lambda_handler world_ok (event_text '''')) = Some 400 \<and>
   tipo_error_of (lambda_handler world_ok (event_text '''')) = Some (PStr ''KeyError'') \<and>
   store_calls (lambda_handler world_ok (event_text '''')) = [] \<and>
   status_of (lambda_handler world_ok event_sin_datos) = Some 400 \<and>
   tipo_error_of (lambda_handler world_ok event_sin_datos) = Some (PStr ''KeyError'') \<and>
   store_calls (lambda_handler world_ok event_sin_datos) = []"
proof -
  have 1: "environ_TABLE_NAME world_ok = Some ''t_peliculas''" and 2: "''t_peliculas'' \<noteq> []"
    by (simp_all add: world_ok_def)
  have p: "parse_event_body (json_loads world_ok) (event_text '''') = Inr (PDict [])"
    by code_simp
  note th = missing_field_status_400 [OF 1 2]
  have m: "map_of [] ''tenant_id'' = (None :: pyval option)
      \<or> map_of [] ''pelicula_datos'' = (None :: pyval option)"
    by simp
  from th [THEN conjunct1, rule_format, of "event_text []" "[]"] p m
  have "status_of (lambda_handler world_ok (event_text '''')) = Some 400 \<and>
   tipo_error_of (lambda_handler world_ok (event_text '''')) = Some (PStr ''KeyError'') \<and>
   store_calls (lambda_handler world_ok (event_text '''')) = []"
    by simp
  with th [THEN conjunct2] 1 p show ?thesis
    by simp
qed

text \<open>
  C5 as stated fails: for \<^verbatim>\<open>{"body": {"tenant_id": "t1"}}\<close> the response is not the
  one the claim gives, its \<open>tipo_error\<close> is \<^verbatim>\<open>KeyError\<close>. With the table name unset the
  same request gets the \<^verbatim>\<open>RuntimeError\<close> of line 44, which names no missing field.
\<close>

theorem missing_field_exact_output_counterexample:
  "environ_TABLE_NAME world_ok = Some ''t_peliculas'' \<and>
   status_of (lambda_handler world_ok event_sin_datos) = Some 400 \<and>
   tipo_error_of (lambda_handler world_ok event_sin_datos) = Some (PStr ''KeyError'') \<and>
   outcome (lambda_handler world_ok event_sin_datos) \<noteq>
     Returns \<lparr>statusCode = 400,
        body = error_body ''Falta 'pelicula_datos' en el body.'' ''MissingFieldError''\<rparr> \<and>
   environ_TABLE_NAME world_unset = None \<and>
   status_of (lambda_handler world_unset event_sin_datos) = Some 400 \<and>
   tipo_error_of (lambda_handler world_unset event_sin_datos) = Some (PStr ''RuntimeError'')"
  by code_simp

text \<open>
  C6 says that with the table name unset every request gets status 400 with the
  configuration error. The source does not keep it: for the event \<^verbatim>\<open>{"body": "[1]"}\<close>
  line 44 raises \<^verbatim>\<open>RuntimeError\<close>, the \<^verbatim>\<open>except\<close> clause parses the body for its log
  entry, and \<^verbatim>\<open>body_dbg.get("tenant_id")\<close> on the decoded list raises
  \<^verbatim>\<open>AttributeError\<close>, which leaves the handler; there is no response.
\<close>

theorem config_error_lost_on_list_text:
  "environ_TABLE_NAME world_unset = None \<and>
   json_loads world_unset ''[1]'' = Inr (PList [PInt 1]) \<and>
   outcome (lambda_handler world_unset (event_text ''[1]'')) =
     Raises (AttributeError ([CHR 0x27] @ ''list'' @ [CHR 0x27] @ '' object has no attribute 'get''
                              @ [CHR 0x27])) \<and>
   status_of (lambda_handler world_unset (event_text ''[1]'')) = None"
  by code_simp

text \<open>
  C7, as the source has it. With the table name configured, every request whose \<open>body\<close>
  key holds a string with a character that is not whitespace, and which \<^verbatim>\<open>json.loads\<close>
  rejects with \<^verbatim>\<open>JSONDecodeError\<close>, gets status 400 with \<open>tipo_error\<close>
  \<^verbatim>\<open>JSONDecodeError\<close>, a \<^verbatim>\<open>ValueError\<close>, and the decoder's message; no store request
  is issued.
\<close>

theorem malformed_json_status_400:
  assumes "environ_TABLE_NAME w = Some tabla" and "tabla \<noteq> []"
    and "map_of envelope ''body'' = Some (PStr s)"
    and "\<exists>c\<in>set s. \<not> py_isspace c"
    and "json_loads w s = Inl (JSONDecodeError msg)"
  shows "outcome (lambda_handler w (PDict envelope)) =
      Returns \<lparr>statusCode = 400, body = error_body msg ''JSONDecodeError''\<rparr>
    \<and> store_calls (lambda_handler w (PDict envelope)) = []"
proof -
  from assms(4) have "py_strip s \<noteq> []"
    by (simp add: py_strip_Nil_iff)
  with assms(3,5) have p: "parse_event_body (json_loads w) (PDict envelope) = Inl (JSONDecodeError msg)"
    by (simp add: parse_event_body_def)
  then have "try_block w (PDict envelope) = (Inl (JSONDecodeError msg), [], [])"
    by (simp add: try_block_def build_item_parse_raises [OF assms(1,2)])
  then show ?thesis
    by (simp add: outcome_lambda_handler store_calls_lambda_handler
        except_expected_parse_raises [OF p])
qed

text \<open>The malformed text \<^verbatim>\<open>{\<close>.\<close>

theorem malformed_json_status_400_witness:
  "environ_TABLE_NAME world_ok = Some ''t_peliculas'' \<and>
   json_loads world_ok ''{'' = Inl (JSONDecodeError
     ''Expecting property name enclosed in double quotes: line 1 column 2 (char 1)'') \<and>
   outcome (lambda_handler world_ok (event_text ''{'')) =
     Returns \<lparr>statusCode = 400,
       body = error_body
         ''Expecting property name enclosed in double quotes: line 1 column 2 (char 1)''
         ''JSONDecodeError''\<rparr> \<and>
   store_calls (lambda_handler world_ok (event_text ''{'')) = []"
proof -
  have 1: "environ_TABLE_NAME world_ok = Some ''t_peliculas''" and 2: "''t_peliculas'' \<noteq> []"
    by (simp_all add: world_ok_def)
  have 3: "map_of [(''body'', PStr ''{'')] ''body'' = Some (PStr ''{'')"
    by simp
  have 4: "\<exists>c\<in>set ''{''. \<not> py_isspace c"
    by (simp add: py_isspace_def)
  have 5: "json_loads world_ok ''{'' = Inl (JSONDecodeError
      ''Expecting property name enclosed in double quotes: line 1 column 2 (char 1)'')"
    by (simp add: world_ok_def json_loads_fragment_def)
  from malformed_json_status_400 [OF 1 2 3 4 5] 1 5 show ?thesis
    by (simp add: event_text_def)
qed

text \<open>
  C7 as stated fails. One blank is a non-empty string that is not valid JSON; line 29
  resolves it to \<open>{}\<close> and the error is the missing field, a \<^verbatim>\<open>KeyError\<close>. And with
  the table name unset the malformed text \<^verbatim>\<open>{\<close> gets the \<^verbatim>\<open>RuntimeError\<close> of line 44.
\<close>

theorem malformed_json_kind_counterexample:
  "'' '' \<noteq> [] \<and>
   json_loads world_ok '' '' = Inl (JSONDecodeError ''Expecting value: line 1 column 2 (char 1)'') \<and>
   outcome (lambda_handler world_ok (event_text '' '')) =
     Returns \<lparr>statusCode = 400,
       body = error_body ([CHR 0x22] @ ''Falta 'tenant_id' en el body.'' @ [CHR 0x22]) ''KeyError''\<rparr> \<and>
   json_loads world_unset ''{'' = Inl (JSONDecodeError
     ''Expecting property name enclosed in double quotes: line 1 column 2 (char 1)'') \<and>
   outcome (lambda_handler world_unset (event_text ''{'')) =
     Returns \<lparr>statusCode = 400,
       body = error_body ''Variable de entorno 'TABLE_NAME' no definida.'' ''RuntimeError''\<rparr>"
  by code_simp

text \<open>
  C8, as the source has it. Every request whose \<open>body\<close> key holds an empty or
  whitespace-only string resolves to the empty mapping; with the table name configured
  it then fails the check of \<open>tenant_id\<close> and gets status 400 with that \<^verbatim>\<open>KeyError\<close>,
  not a parse error, and no store request.
\<close>

theorem blank_body_missing_field:
  assumes "environ_TABLE_NAME w = Some tabla" and "tabla \<noteq> []"
    and "map_of envelope ''body'' = Some (PStr s)"
    and "\<forall>c\<in>set s. py_isspace c"
  shows "parse_event_body (json_loads w) (PDict envelope) = Inr (PDict [])
    \<and> outcome (lambda_handler w (PDict envelope)) =
        Returns \<lparr>statusCode = 400,
          body = error_body ([CHR 0x22] @ ''Falta 'tenant_id' en el body.'' @ [CHR 0x22])
                   ''KeyError''\<rparr>
    \<and> store_calls (lambda_handler w (PDict envelope)) = []"
proof -
  from assms(4) have "py_strip s = []"
    by (simp add: py_strip_Nil_iff)
  with assms(3) have p: "parse_event_body (json_loads w) (PDict envelope) = Inr (PDict [])"
    by (simp add: parse_event_body_def)
  have "try_block w (PDict envelope) = (Inl (KeyError ''Falta 'tenant_id' en el body.''), [], [])"
    using build_item_missing [OF assms(1,2) p] by (simp add: try_block_def)
  then have "outcome (lambda_handler w (PDict envelope)) =
        Returns \<lparr>statusCode = 400,
          body = error_body ([CHR 0x22] @ ''Falta 'tenant_id' en el body.'' @ [CHR 0x22])
                   ''KeyError''\<rparr>
    \<and> store_calls (lambda_handler w (PDict envelope)) = []"
    by (simp add: outcome_lambda_handler store_calls_lambda_handler
        except_expected_dict [OF p] repr_falta_tenant)
  with p show ?thesis by simp
qed

text \<open>A body of a tab, a blank and a newline.\<close>

theorem blank_body_missing_field_witness:
  "environ_TABLE_NAME world_ok = Some ''t_peliculas'' \<and>
   parse_event_body (json_loads world_ok) (event_text [CHR 0x09, CHR '' '', CHR 0x0A]) = Inr (PDict []) \<and>
   outcome (lambda_handler world_ok (event_text [CHR 0x09, CHR '' '', CHR 0x0A])) =
      Returns \<lparr>statusCode = 400,
        body = error_body ([CHR 0x22] @ ''Falta 'tenant_id' en el body.'' @ [CHR 0x22])
                 ''KeyError''\<rparr> \<and>
   store_calls (lambda_handler world_ok (event_text [CHR 0x09, CHR '' '', CHR 0x0A])) = []"
proof -
  have 1: "environ_TABLE_NAME world_ok = Some ''t_peliculas''" and 2: "''t_peliculas'' \<noteq> []"
    by (simp_all add: world_ok_def)
  have 3: "map_of [(''body'', PStr [CHR 0x09, CHR '' '', CHR 0x0A])] ''body''
      = Some (PStr [CHR 0x09, CHR '' '', CHR 0x0A])"
    by simp
  have 4: "\<forall>c\<in>set [CHR 0x09, CHR '' '', CHR 0x0A]. py_isspace c"
    by (simp add: py_isspace_def)
  from blank_body_missing_field [OF 1 2 3 4] 1 show ?thesis
    by (simp add: event_text_def)
qed

text \<open>
  C8 as stated fails: with the table name unset the request with an empty body does
  not reach the missing-field checks; its error is the \<^verbatim>\<open>RuntimeError\<close> of line 44.
\<close>

theorem blank_body_unset_table_counterexample:
  "environ_TABLE_NAME world_unset = None \<and>
   parse_event_body (json_loads world_unset) (event_text '''') = Inr (PDict []) \<and>
   outcome (lambda_handler world_unset (event_text '''')) =
     Returns \<lparr>statusCode = 400,
       body = error_body ''Variable de entorno 'TABLE_NAME' no definida.'' ''RuntimeError''\<rparr>"
  by code_simp

text \<open>
  C9, as the source has it, for an envelope that is a dict. When the \<open>body\<close> key holds
  a dict, that dict is the body. When it holds a string, the body is what \<^verbatim>\<open>json.loads\<close>
  gives for it, except that an empty or whitespace-only string gives the empty mapping.
  When it holds anything else the parse raises \<^verbatim>\<open>ValueError\<close> and no body is chosen.
  Only without a \<open>body\<close> key are the top-level fields the body; with the key present
  the result depends on its value alone. An event that is no dict gives the empty
  mapping.
\<close>

theorem parse_event_body_priority:
  "(map_of envelope ''body'' = Some (PDict d) \<longrightarrow>
      parse_event_body loads (PDict envelope) = Inr (PDict d)) \<and>
   (map_of envelope ''body'' = Some (PStr s) \<longrightarrow>
      parse_event_body loads (PDict envelope) =
        (if \<forall>c\<in>set s. py_isspace c then Inr (PDict []) else loads s)) \<and>
   (map_of envelope ''body'' = Some v \<and> type_name v \<notin> {''str'', ''dict''} \<longrightarrow>
      parse_event_body loads (PDict envelope) =
        Inl (ValueError ''El campo 'body' debe ser dict o string JSON.'')) \<and>
   (map_of envelope ''body'' = None \<longrightarrow>
      parse_event_body loads (PDict envelope) = Inr (PDict envelope)) \<and>
   (map_of envelope ''body'' = Some v \<longrightarrow>
      parse_event_body loads (PDict envelope) = parse_event_body loads (PDict [(''body'', v)])) \<and>
   (type_name event \<noteq> ''dict'' \<longrightarrow> parse_event_body loads event = Inr (PDict []))"
  by (cases v; cases event) (auto simp add: parse_event_body_def py_strip_Nil_iff)

text \<open>One envelope for each of the six parts.\<close>

theorem parse_event_body_priority_witness:
  "parse_event_body json_loads_fragment event_full =
     Inr (PDict [(''tenant_id'', PStr ''t1''), (''pelicula_datos'', PDict [(''titulo'', PStr ''X'')])]) \<and>
   parse_event_body json_loads_fragment (PDict [(''tenant_id'', PStr ''t0''), (''body'', PStr ''[1]'')]) =
     Inr (PList [PInt 1]) \<and>
   parse_event_body json_loads_fragment event_null_body =
     Inl (ValueError ''El campo 'body' debe ser dict o string JSON.'') \<and>
   parse_event_body json_loads_fragment (PDict [(''tenant_id'', PStr ''t1'')]) =
     Inr (PDict [(''tenant_id'', PStr ''t1'')]) \<and>
   parse_event_body json_loads_fragment event_null_body =
     parse_event_body json_loads_fragment (PDict [(''body'', PNone)]) \<and>
   parse_event_body json_loads_fragment (PInt 3) = Inr (PDict [])"
proof -
  note th = parse_event_body_priority [where loads = json_loads_fragment]
  have a: "map_of [(''body'', PDict [(''tenant_id'', PStr ''t1''),
        (''pelicula_datos'', PDict [(''titulo'', PStr ''X'')])])] ''body''
      = Some (PDict [(''tenant_id'', PStr ''t1''), (''pelicula_datos'', PDict [(''titulo'', PStr ''X'')])])"
    by simp
  have b: "map_of [(''tenant_id'', PStr ''t0''), (''body'', PStr ''[1]'')] ''body'' = Some (PStr ''[1]'')"
    by simp
  have b': "\<not> (\<forall>c\<in>set ''[1]''. py_isspace c)"
    by (simp add: py_isspace_def)
  have c: "map_of [(''body'', PNone), (''tenant_id'', PStr ''t1''),
        (''pelicula_datos'', PDict [(''titulo'', PStr ''X'')])] ''body'' = Some PNone"
    and c': "type_name PNone \<notin> {''str'', ''dict''}"
    by simp_all
  have d: "map_of [(''tenant_id'', PStr ''t1'')] ''body'' = (None :: pyval option)"
    by simp
  have e: "type_name (PInt 3) \<noteq> ''dict''"
    by simp
  have l: "json_loads_fragment ''[1]'' = Inr (PList [PInt 1])"
    by (simp add: json_loads_fragment_def)
  from th [THEN conjunct1, rule_format, OF a]
    th [THEN conjunct2, THEN conjunct1, rule_format, OF b]
    th [THEN conjunct2, THEN conjunct2, THEN conjunct1, rule_format, OF conjI [OF c c']]
    th [THEN conjunct2, THEN conjunct2, THEN conjunct2, THEN conjunct1, rule_format, OF d]
    th [THEN conjunct2, THEN conjunct2, THEN conjunct2, THEN conjunct2, THEN conjunct1, rule_format, OF c]
    th [THEN conjunct2, THEN conjunct2, THEN conjunct2, THEN conjunct2, THEN conjunct2, rule_format, OF e]
    b' l
  show ?thesis
    by (simp add: event_full_def event_null_body_def)
qed

text \<open>
  C9 as stated fails. For \<^verbatim>\<open>{"body": ""}\<close> the body is the empty mapping although
  \<^verbatim>\<open>json.loads\<close> rejects the empty text, and for \<^verbatim>\<open>{"body": [1]}\<close> no body is chosen:
  the parse raises.
\<close>

theorem parse_event_body_decoded_counterexample:
  "json_loads_fragment '''' = Inl (JSONDecodeError ''Expecting value: line 1 column 1 (char 0)'') \<and>
   parse_event_body json_loads_fragment (event_text '''') = Inr (PDict []) \<and>
   parse_event_body json_loads_fragment event_list_body =
     Inl (ValueError ''El campo 'body' debe ser dict o string JSON.'')"
  by code_simp

text \<open>
  C10, as the source has it. With the table name configured, every request whose
  \<open>body\<close> key holds a value that is neither a dict nor a string gets status 400 with
  the \<^verbatim>\<open>ValueError\<close> saying that \<open>body\<close> must be a dict or a JSON string, and no store
  request; the parse raises, so the top-level fields are not used.
\<close>

theorem body_wrong_type_status_400:
  assumes "environ_TABLE_NAME w = Some tabla" and "tabla \<noteq> []"
    and "map_of envelope ''body'' = Some v"
    and "type_name v \<notin> {''str'', ''dict''}"
  shows "parse_event_body (json_loads w) (PDict envelope) =
      Inl (ValueError ''El campo 'body' debe ser dict o string JSON.'')
    \<and> outcome (lambda_handler w (PDict envelope)) =
        Returns \<lparr>statusCode = 400,
          body = error_body ''El campo 'body' debe ser dict o string JSON.'' ''ValueError''\<rparr>
    \<and> store_calls (lambda_handler w (PDict envelope)) = []"
proof -
  from assms(3,4) have p: "parse_event_body (json_loads w) (PDict envelope) =
      Inl (ValueError ''El campo 'body' debe ser dict o string JSON.'')"
    by (cases v) (simp_all add: parse_event_body_def)
  then have "try_block w (PDict envelope) =
      (Inl (ValueError ''El campo 'body' debe ser dict o string JSON.''), [], [])"
    by (simp add: try_block_def build_item_parse_raises [OF assms(1,2)])
  then have "outcome (lambda_handler w (PDict envelope)) =
        Returns \<lparr>statusCode = 400,
          body = error_body ''El campo 'body' debe ser dict o string JSON.'' ''ValueError''\<rparr>
    \<and> store_calls (lambda_handler w (PDict envelope)) = []"
    by (simp add: outcome_lambda_handler store_calls_lambda_handler
        except_expected_parse_raises [OF p])
  with p show ?thesis by simp
qed

text \<open>A \<open>body\<close> of \<open>None\<close> beside both required fields at top level.\<close>

theorem body_wrong_type_status_400_witness:
  "environ_TABLE_NAME world_ok = Some ''t_peliculas'' \<and>
   parse_event_body (json_loads world_ok) event_null_body =
      Inl (ValueError ''El campo 'body' debe ser dict o string JSON.'') \<and>
   outcome (lambda_handler world_ok event_null_body) =
      Returns \<lparr>statusCode = 400,
        body = error_body ''El campo 'body' debe ser dict o string JSON.'' ''ValueError''\<rparr> \<and>
   store_calls (lambda_handler world_ok event_null_body) = []"
proof -
  have 1: "environ_TABLE_NAME world_ok = Some ''t_peliculas''" and 2: "''t_peliculas'' \<noteq> []"
    by (simp_all add: world_ok_def)
  have 3: "map_of [(''body'', PNone), (''tenant_id'', PStr ''t1''),
        (''pelicula_datos'', PDict [(''titulo'', PStr ''X'')])] ''body'' = Some PNone"
    and 4: "type_name PNone \<notin> {''str'', ''dict''}"
    by simp_all
  from body_wrong_type_status_400 [OF 1 2 3 4] 1 show ?thesis
    by (simp add: event_null_body_def)
qed

text \<open>
  C10 as stated fails: with the table name unset the request \<^verbatim>\<open>{"body": [1]}\<close> gets
  the \<^verbatim>\<open>RuntimeError\<close> of line 44, not the validation error.
\<close>

theorem body_wrong_type_unset_table_counterexample:
  "environ_TABLE_NAME world_unset = None \<and>
   outcome (lambda_handler world_unset event_list_body) =
     Returns \<lparr>statusCode = 400,
       body = error_body ''Variable de entorno 'TABLE_NAME' no definida.'' ''RuntimeError''\<rparr> \<and>
   ''Variable de entorno 'TABLE_NAME' no definida.'' \<noteq> ''El campo 'body' debe ser dict o string JSON.''"
  by code_simp

end
